theory Spec2Isabelle
  imports Main
begin

section \<open>The audit log service\<close>

text \<open>
  A shallow embedding of \<^verbatim>\<open>auditLogService.js\<close>, read as JavaScript runs it. The file
  is a design sketch and most of it cannot run; the embedding keeps every failure where the
  language puts it:
  \<^item> \<^verbatim>\<open>verifyArguments\<close> is \<^verbatim>\<open>static\<close> and reads the private field \<^verbatim>\<open>#user\<close> of \<^verbatim>\<open>this\<close>, which
    is the class in every call the file makes: a TypeError;
  \<^item> \<^verbatim>\<open>throw X(...)\<close> without \<^verbatim>\<open>new\<close> calls a class as a function: a TypeError, and no \<^verbatim>\<open>X\<close>
    is ever raised;
  \<^item> \<^verbatim>\<open>dataWithTableName\<close> (line 107) and \<^verbatim>\<open>newLabel\<close> (line 189) are declared nowhere: a
    ReferenceError;
  \<^item> the builders return functions, and \<^verbatim>\<open>Promise.all\<close> is handed the function itself, which
    is not iterable: a TypeError, and the function is never called;
  \<^item> the exported operations call \<^verbatim>\<open>AuditLogService.execute\<close>, which is not a property of
    the class since \<^verbatim>\<open>execute\<close> is an instance method: a TypeError.
  What \<^verbatim>\<open>sequelize.transaction()\<close>, \<^verbatim>\<open>commit\<close> and \<^verbatim>\<open>rollback\<close> do is not in the file; they are
  parameters. Attribute values are null, undefined, integers, strings and objects.
\<close>

subsection \<open>Values\<close>

datatype jsval =
    JUndefined
  | JNull
  | JNum int
  | JStr string
  | JObj "(string \<times> jsval) list"

type_synonym attrs = "(string \<times> jsval) list"

text \<open>Property read \<^verbatim>\<open>obj[key]\<close>: a missing property is \<^verbatim>\<open>undefined\<close>.\<close>

definition getProp :: "attrs \<Rightarrow> string \<Rightarrow> jsval" where
  "getProp obj key = (case map_of obj key of None \<Rightarrow> JUndefined | Some v \<Rightarrow> v)"

text \<open>Property write \<^verbatim>\<open>obj[key] = v\<close>: an existing property keeps its place.\<close>

fun setProp :: "attrs \<Rightarrow> string \<Rightarrow> jsval \<Rightarrow> attrs" where
  "setProp [] key v = [(key, v)]"
| "setProp ((k, x) # obj) key v =
     (if k = key then (k, v) # obj else (k, x) # setProp obj key v)"

definition digitChars :: string where
  "digitChars = ''0123456789''"

function showNat :: "nat \<Rightarrow> string" where
  "showNat n =
     (if n < 10 then [digitChars ! n]
      else showNat (n div 10) @ [digitChars ! (n mod 10)])"
  by pat_completeness auto
termination
  by (relation "measure (\<lambda>n. n)") auto

declare showNat.simps [simp del]

definition showInt :: "int \<Rightarrow> string" where
  "showInt i = (if i < 0 then CHR ''-'' # showNat (nat (- i)) else showNat (nat i))"

text \<open>\<^verbatim>\<open>String(v)\<close>, as property keys and \<^verbatim>\<open>join\<close> apply it.\<close>

fun ToString :: "jsval \<Rightarrow> string" where
  "ToString JUndefined = ''undefined''"
| "ToString JNull = ''null''"
| "ToString (JNum i) = showInt i"
| "ToString (JStr s) = s"
| "ToString (JObj obj) = ''[object Object]''"

text \<open>\<^verbatim>\<open>Array.prototype.join()\<close>: the separator is a comma, null and undefined are empty.\<close>

fun joinElement :: "jsval \<Rightarrow> string" where
  "joinElement JUndefined = []"
| "joinElement JNull = []"
| "joinElement v = ToString v"

fun join :: "jsval list \<Rightarrow> string" where
  "join [] = []"
| "join [v] = joinElement v"
| "join (v # vs) = joinElement v @ '','' @ join vs"

subsection \<open>Model instances, audit rows, errors\<close>

text \<open>
  A member of a change set, as far as the service reads it. \<open>isSequelizeModel\<close> is
  \<^verbatim>\<open>model instanceof Model\<close>; \<open>modelTableName\<close> and \<open>primaryKeyAttributes\<close> are the properties
  \<^verbatim>\<open>tableName\<close> and \<^verbatim>\<open>primaryKeyAttributes\<close> of the object itself, \<open>None\<close> where it has none (on
  an instance made by Sequelize both belong to the class); \<open>changedKeys\<close> is the dirty set that
  \<^verbatim>\<open>model.changed()\<close> reports, \<open>previousDataValues\<close> what \<^verbatim>\<open>model.previous(key)\<close> reads and
  \<open>dataValues\<close> what \<^verbatim>\<open>model.get(key)\<close> and \<^verbatim>\<open>model[key]\<close> read.
\<close>

record model =
  isSequelizeModel :: bool
  modelTableName :: "string option"
  primaryKeyAttributes :: "string list option"
  dataValues :: attrs
  previousDataValues :: attrs
  changedKeys :: "string list"

record dashboard_user =
  userId :: nat

text \<open>
  A row of \<^verbatim>\<open>DashboardAuditLog\<close>, with the properties the three builders name in the object
  they pass to \<^verbatim>\<open>DashboardAuditLog.create\<close>; a property a builder does not name is \<open>None\<close>.
\<close>

record audit_entry =
  changesetUuidBin :: string
  tableName :: string
  fieldName :: "string option"
  action :: "string option"
  primaryKey :: string
  oldValue :: jsval
  newValue :: jsval
  oldLabel :: jsval
  newLabel :: jsval
  changedBy :: nat

text \<open>The four error classes of lines 38-44, and the two errors of the language.\<close>

datatype error =
    AuditLogServiceMisConfiguredError
  | AuditLogServiceInvalidActionError
  | AuditLogServiceUnknownTableNameError
  | AuditLogServiceInvalidChangeSetError
  | TypeError
  | ReferenceError

text \<open>
  \<^verbatim>\<open>throw X('...')\<close>: the class \<^verbatim>\<open>X\<close> is called without \<^verbatim>\<open>new\<close>, which raises TypeError before
  there is anything to throw (lines 90, 104, 215, 219; line 86 has \<^verbatim>\<open>new\<close>).
\<close>

definition withoutNew :: "error \<Rightarrow> error" where
  "withoutNew errorClass = TypeError"

definition AUDIT_ACTIONS :: "(string \<times> string) list" where
  "AUDIT_ACTIONS = [(''CREATE'', ''CREATE''), (''DELETE'', ''DELETE''), (''UPDATE'', ''UPDATE'')]"

definition AUDIT_ACTIONS_CREATE :: string where
  "AUDIT_ACTIONS_CREATE = ''CREATE''"

definition AUDIT_ACTIONS_DELETE :: string where
  "AUDIT_ACTIONS_DELETE = ''DELETE''"

definition AUDIT_ACTIONS_UPDATE :: string where
  "AUDIT_ACTIONS_UPDATE = ''UPDATE''"

text \<open>
  Lines 26-33. \<^verbatim>\<open>_.map\<close> of an undefined \<^verbatim>\<open>primaryKeyAttributes\<close> is the empty array.
  Composite primary keys are stored comma separated.
\<close>

definition getPrimaryKeyForModel :: "model \<Rightarrow> string" where
  "getPrimaryKeyForModel m =
     join (map (\<lambda>primaryKeyAttribute. getProp (dataValues m) primaryKeyAttribute)
       (case primaryKeyAttributes m of None \<Rightarrow> [] | Some ks \<Rightarrow> ks))"

subsection \<open>The store and the collaborators\<close>

text \<open>
  The store: data rows by table and the rows of the audit table. A transaction is known
  to the service as an object with \<^verbatim>\<open>commit\<close> and \<^verbatim>\<open>rollback\<close>; \<open>env\<close> holds what the file
  imports: the registry \<^verbatim>\<open>DBModels\<close> (which names have an entry), and what
  \<^verbatim>\<open>sequelize.transaction()\<close>, \<^verbatim>\<open>transaction.commit()\<close> and \<^verbatim>\<open>transaction.rollback()\<close> give.
\<close>

record db =
  rows :: "(string \<times> attrs) list"
  auditLog :: "audit_entry list"

datatype tx_status = Open | Committed | RolledBack

record sql_transaction =
  txId :: nat
  status :: tx_status

record env =
  DBModels :: "string \<Rightarrow> bool"
  sequelize_transaction :: "error + sql_transaction"
  commit :: "sql_transaction \<Rightarrow> error + sql_transaction"
  rollback :: "sql_transaction \<Rightarrow> error + sql_transaction"

record world =
  database :: db




subsection \<open>The service object\<close>

record service =
  user :: "dashboard_user option"
  transaction :: "sql_transaction option"

definition init :: service where
  "init = \<lparr>user = None, transaction = None\<rparr>"

text \<open>Lines 56-70. Both setters return \<^verbatim>\<open>this\<close>: here, the service as updated.\<close>

definition withUser :: "dashboard_user option \<Rightarrow> service \<Rightarrow> service" where
  "withUser u this = this\<lparr>user := u\<rparr>"

definition withTransaction :: "sql_transaction option \<Rightarrow> service \<Rightarrow> service" where
  "withTransaction t this = this\<lparr>transaction := t\<rparr>"

text \<open>
  What \<^verbatim>\<open>this\<close> is in a method: the class, in a static method called on the class, or an
  instance. \<^verbatim>\<open>this.#user\<close> on an object without the private field raises TypeError.
\<close>

datatype receiver = ClassObject | InstanceObject service

definition privateUser :: "receiver \<Rightarrow> error + dashboard_user option" where
  "privateUser this =
     (case this of ClassObject \<Rightarrow> Inl TypeError | InstanceObject s \<Rightarrow> Inr (user s))"

text \<open>Lines 78-92. \<open>None\<close> is an undefined member.\<close>

definition supportedModel :: "model option \<Rightarrow> bool" where
  "supportedModel m = (case m of None \<Rightarrow> False | Some x \<Rightarrow> isSequelizeModel x)"

definition verifyArguments :: "receiver \<Rightarrow> model option list \<Rightarrow> error + unit" where
  "verifyArguments this changeSet =
     (case privateUser this of
        Inl err \<Rightarrow> Inl err
      | Inr usr \<Rightarrow>
          if usr = None then Inl AuditLogServiceMisConfiguredError
          else if \<not> list_all supportedModel changeSet
          then Inl (withoutNew AuditLogServiceInvalidChangeSetError)
          else Inr ())"

text \<open>
  What a builder returns: a function, kept as the variables it closes over. The function
  of \<^verbatim>\<open>createModel\<close> (line 109) is never returned.
\<close>

datatype executable =
    UpdateClosure "model list" nat
  | DestroyClosure model nat

text \<open>
  Lines 100-128. Destructuring \<^verbatim>\<open>undefined\<close> raises TypeError; an unknown table ends in the
  \<^verbatim>\<open>throw\<close> without \<^verbatim>\<open>new\<close>; for a known table line 107 names \<^verbatim>\<open>dataWithTableName\<close>, which
  is not declared. So the function raises on every input.
\<close>

definition tableKey :: "model \<Rightarrow> string" where
  "tableKey d = (case modelTableName d of None \<Rightarrow> ''undefined'' | Some t \<Rightarrow> t)"

definition createModel :: "env \<Rightarrow> model option \<Rightarrow> nat \<Rightarrow> error + executable" where
  "createModel e data uid =
     (case data of
        None \<Rightarrow> Inl TypeError
      | Some d \<Rightarrow>
          if \<not> DBModels e (tableKey d)
          then Inl (withoutNew AuditLogServiceUnknownTableNameError)
          else Inl ReferenceError)"

text \<open>Lines 136-159. The first statement calls \<^verbatim>\<open>AuditLogService.verifyArguments\<close>.\<close>

definition destroyModel :: "model option \<Rightarrow> nat \<Rightarrow> error + executable" where
  "destroyModel m uid =
     (case verifyArguments ClassObject [m] of
        Inl err \<Rightarrow> Inl err
      | Inr _ \<Rightarrow>
          (case m of
             None \<Rightarrow> Inl TypeError
           | Some x \<Rightarrow> Inr (DestroyClosure x uid)))"

text \<open>
  Lines 167-202. \<^verbatim>\<open>updateChangeSet\<close> only returns its function. \<open>invokeUpdateChangeSet\<close> is that
  function called with \<^verbatim>\<open>promises\<close>, for the value \<^verbatim>\<open>uuid()\<close> gives at line 196; nothing in
  the file calls it. \<^verbatim>\<open>model.changed()\<close> is \<^verbatim>\<open>false\<close> (here \<open>None\<close>) when nothing changed. The
  reducer fills \<^verbatim>\<open>oldValue\<close> by field name and \<^verbatim>\<open>newValue\<close> under the key \<^verbatim>\<open>newValue\<close> itself, that
  is, under \<^verbatim>\<open>String(newValue)\<close>. Then, for each changed field, it evaluates the object of
  lines 181-191 for \<^verbatim>\<open>DashboardAuditLog.create\<close>: the object names \<^verbatim>\<open>newLabel\<close> (line 189, not
  declared; nor is \<^verbatim>\<open>labelValue\<close>), so the evaluation raises ReferenceError before
  \<^verbatim>\<open>create\<close> is called, and \<^verbatim>\<open>model.save()\<close> is not reached.
\<close>

datatype pending = AuditWrite audit_entry | SaveWrite model | Nested "pending list"

definition changed :: "model \<Rightarrow> string list option" where
  "changed m = (if changedKeys m = [] then None else Some (changedKeys m))"

definition previous :: "model \<Rightarrow> string \<Rightarrow> jsval" where
  "previous m key = getProp (previousDataValues m) key"

definition get :: "model \<Rightarrow> string \<Rightarrow> jsval" where
  "get m key = getProp (dataValues m) key"

definition oldValueOf :: "model \<Rightarrow> string list \<Rightarrow> attrs" where
  "oldValueOf m dirty = foldl (\<lambda>obj f. setProp obj f (previous m f)) [] dirty"

definition newValueOf :: "model \<Rightarrow> string list \<Rightarrow> attrs" where
  "newValueOf m dirty = foldl (\<lambda>obj f. setProp obj (ToString (JObj obj)) (get m f)) [] dirty"

definition updateAuditRow ::
  "string \<Rightarrow> model \<Rightarrow> attrs \<Rightarrow> attrs \<Rightarrow> nat \<Rightarrow> string \<Rightarrow> error + audit_entry" where
  "updateAuditRow uuidString m old new uid field = Inl ReferenceError"

fun mapE :: "('a \<Rightarrow> error + 'b) \<Rightarrow> 'a list \<Rightarrow> error + 'b list" where
  "mapE f [] = Inr []"
| "mapE f (x # xs) =
     (case f x of
        Inl err \<Rightarrow> Inl err
      | Inr y \<Rightarrow> (case mapE f xs of Inl err \<Rightarrow> Inl err | Inr ys \<Rightarrow> Inr (y # ys)))"

definition createAudit :: "string \<Rightarrow> nat \<Rightarrow> model \<Rightarrow> error + audit_entry list" where
  "createAudit uuidString uid m =
     (case changed m of
        None \<Rightarrow> Inl TypeError
      | Some dirty \<Rightarrow>
          mapE (updateAuditRow uuidString m (oldValueOf m dirty) (newValueOf m dirty) uid) dirty)"

definition modelUpdateReducer ::
  "string \<Rightarrow> nat \<Rightarrow> pending list \<Rightarrow> model \<Rightarrow> error + pending list" where
  "modelUpdateReducer uuidString uid promises m =
     (case createAudit uuidString uid m of
        Inl err \<Rightarrow> Inl err
      | Inr audits \<Rightarrow> Inr (promises @ map AuditWrite audits @ [SaveWrite m]))"

fun reduceE :: "('b \<Rightarrow> 'a \<Rightarrow> error + 'b) \<Rightarrow> 'b \<Rightarrow> 'a list \<Rightarrow> error + 'b" where
  "reduceE f acc [] = Inr acc"
| "reduceE f acc (x # xs) =
     (case f acc x of Inl err \<Rightarrow> Inl err | Inr acc' \<Rightarrow> reduceE f acc' xs)"

definition updateChangeSet :: "model list \<Rightarrow> nat \<Rightarrow> executable" where
  "updateChangeSet changeSet uid = UpdateClosure changeSet uid"

definition invokeUpdateChangeSet ::
  "model list \<Rightarrow> nat \<Rightarrow> string \<Rightarrow> pending list \<Rightarrow> error + pending list" where
  "invokeUpdateChangeSet changeSet uid uuidString promises =
     (case reduceE (modelUpdateReducer uuidString uid) []
             (filter (\<lambda>m. changed m \<noteq> None) changeSet) of
        Inl err \<Rightarrow> Inl err
      | Inr updates \<Rightarrow> Inr (promises @ [Nested updates]))"

text \<open>
  Lines 211-249, in the order of the code. The first statement is the static
  \<^verbatim>\<open>verifyArguments\<close>, called on the class. \<open>afterVerify\<close> is the rest of the method: the action
  test and the size test, both ending in a \<^verbatim>\<open>throw\<close> without \<^verbatim>\<open>new\<close>; the transaction; the
  builders, outside \<^verbatim>\<open>try\<close> (\<open>None\<close> is the \<^verbatim>\<open>undefined\<close> the function of lines 223-233 gives
  when no branch is taken); and \<^verbatim>\<open>try\<close> and \<^verbatim>\<open>catch\<close>.
\<close>

record outcome =
  result :: "error + unit"
  finalWorld :: world
  txn :: "sql_transaction option"

definition actionIsPresentAndValid :: "string \<Rightarrow> bool" where
  "actionIsPresentAndValid action_name =
     (action_name \<noteq> [] \<and> action_name \<in> set (map fst AUDIT_ACTIONS))"

definition first :: "model list \<Rightarrow> model option" where
  "first changeSet = (case changeSet of [] \<Rightarrow> None | m # _ \<Rightarrow> Some m)"

definition executables ::
  "env \<Rightarrow> service \<Rightarrow> string \<Rightarrow> model list \<Rightarrow> error + executable option" where
  "executables e this action_name changeSet =
     (if action_name = AUDIT_ACTIONS_UPDATE
      then (case user this of
              None \<Rightarrow> Inl TypeError
            | Some u \<Rightarrow> Inr (Some (updateChangeSet changeSet (userId u))))
      else if action_name = AUDIT_ACTIONS_CREATE
      then (case user this of
              None \<Rightarrow> Inl TypeError
            | Some u \<Rightarrow>
                (case createModel e (first changeSet) (userId u) of
                   Inl err \<Rightarrow> Inl err
                 | Inr exe \<Rightarrow> Inr (Some exe)))
      else if action_name = AUDIT_ACTIONS_DELETE
      then (case user this of
              None \<Rightarrow> Inl TypeError
            | Some u \<Rightarrow>
                (case destroyModel (first changeSet) (userId u) of
                   Inl err \<Rightarrow> Inl err
                 | Inr exe \<Rightarrow> Inr (Some exe)))
      else Inr None)"

text \<open>\<^verbatim>\<open>Promise.all\<close> of a function or of \<^verbatim>\<open>undefined\<close>: neither is iterable.\<close>

definition Promise_all :: "executable option \<Rightarrow> error + unit" where
  "Promise_all exe = Inl TypeError"

definition manageTransactionInternally :: "service \<Rightarrow> bool \<Rightarrow> bool" where
  "manageTransactionInternally this manageTransaction =
     (case transaction this of Some t \<Rightarrow> manageTransaction | None \<Rightarrow> True)"

definition catchBlock :: "env \<Rightarrow> world \<Rightarrow> sql_transaction \<Rightarrow> bool \<Rightarrow> error \<Rightarrow> outcome" where
  "catchBlock e w tx managed err =
     (if managed
      then (case rollback e tx of
              Inl err' \<Rightarrow> \<lparr>result = Inl err', finalWorld = w, txn = Some tx\<rparr>
            | Inr tx' \<Rightarrow> \<lparr>result = Inl err, finalWorld = w, txn = Some tx'\<rparr>)
      else \<lparr>result = Inl err, finalWorld = w, txn = Some tx\<rparr>)"

definition tryBlock ::
  "env \<Rightarrow> world \<Rightarrow> sql_transaction \<Rightarrow> bool \<Rightarrow> executable option \<Rightarrow> outcome" where
  "tryBlock e w tx managed exe =
     (case Promise_all exe of
        Inl err \<Rightarrow> catchBlock e w tx managed err
      | Inr _ \<Rightarrow>
          if managed
          then (case commit e tx of
                  Inl err \<Rightarrow> catchBlock e w tx managed err
                | Inr tx' \<Rightarrow> \<lparr>result = Inr (), finalWorld = w, txn = Some tx'\<rparr>)
          else \<lparr>result = Inr (), finalWorld = w, txn = Some tx\<rparr>)"

definition afterVerify ::
  "env \<Rightarrow> service \<Rightarrow> world \<Rightarrow> string \<Rightarrow> model list \<Rightarrow> bool \<Rightarrow> outcome" where
  "afterVerify e this w action_name changeSet manageTransaction =
     (if \<not> actionIsPresentAndValid action_name
      then \<lparr>result = Inl (withoutNew AuditLogServiceInvalidActionError), finalWorld = w,
             txn = transaction this\<rparr>
      else if action_name \<in> set [AUDIT_ACTIONS_CREATE, AUDIT_ACTIONS_DELETE]
              \<and> length changeSet > 1
      then \<lparr>result = Inl (withoutNew AuditLogServiceInvalidChangeSetError), finalWorld = w,
             txn = transaction this\<rparr>
      else
        (case (case transaction this of Some t \<Rightarrow> Inr t | None \<Rightarrow> sequelize_transaction e) of
           Inl err \<Rightarrow> \<lparr>result = Inl err, finalWorld = w, txn = None\<rparr>
         | Inr tx \<Rightarrow>
             (case executables e this action_name changeSet of
                Inl err \<Rightarrow> \<lparr>result = Inl err, finalWorld = w, txn = Some tx\<rparr>
              | Inr exe \<Rightarrow>
                  tryBlock e w tx (manageTransactionInternally this manageTransaction) exe)))"

definition execute :: "env \<Rightarrow> service \<Rightarrow> world \<Rightarrow> string \<Rightarrow> model list \<Rightarrow> bool \<Rightarrow> outcome" where
  "execute e this w action_name changeSet manageTransaction =
     (case verifyArguments ClassObject (map Some changeSet) of
        Inl err \<Rightarrow> \<lparr>result = Inl err, finalWorld = w, txn = transaction this\<rparr>
      | Inr _ \<Rightarrow> afterVerify e this w action_name changeSet manageTransaction)"

text \<open>
  Lines 253-258, the exported operations. Each calls \<^verbatim>\<open>AuditLogService.execute\<close>, which is
  \<^verbatim>\<open>undefined\<close>: \<^verbatim>\<open>execute\<close> is declared without \<^verbatim>\<open>static\<close> (line 211), so it is a property of
  the prototype, not of the class. Calling it raises TypeError, whatever the arguments.
  \<^verbatim>\<open>create\<close> passes a plain object \<^verbatim>\<open>{...data, tableName}\<close>; \<^verbatim>\<open>delete\<close> passes
  \<^verbatim>\<open>AUDIT_ACTIONS.CREATE\<close>.
\<close>

definition AuditLogService_execute ::
  "env \<Rightarrow> world \<Rightarrow> string \<Rightarrow> model list \<Rightarrow> bool \<Rightarrow> outcome" where
  "AuditLogService_execute e w action_name changeSet manageTransaction =
     \<lparr>result = Inl TypeError, finalWorld = w, txn = None\<rparr>"

definition create :: "env \<Rightarrow> world \<Rightarrow> string \<Rightarrow> attrs \<Rightarrow> bool \<Rightarrow> outcome" where
  "create e w tbl data manageTransaction =
     AuditLogService_execute e w AUDIT_ACTIONS_CREATE
       [\<lparr>isSequelizeModel = False, modelTableName = Some tbl, primaryKeyAttributes = None,
         dataValues = data, previousDataValues = [], changedKeys = []\<rparr>]
       manageTransaction"

definition delete :: "env \<Rightarrow> world \<Rightarrow> model \<Rightarrow> bool \<Rightarrow> outcome" where
  "delete e w m manageTransaction =
     AuditLogService_execute e w AUDIT_ACTIONS_CREATE [m] manageTransaction"

definition update :: "env \<Rightarrow> world \<Rightarrow> model list \<Rightarrow> bool \<Rightarrow> outcome" where
  "update e w changeSet manageTransaction =
     AuditLogService_execute e w AUDIT_ACTIONS_UPDATE changeSet manageTransaction"

subsection \<open>What an execution wrote\<close>

text \<open>
  The audit rows the store holds after an execution beyond those it held before. The
  service the execution ran on is named for reference only.
\<close>

definition written :: "service \<Rightarrow> world \<Rightarrow> outcome \<Rightarrow> audit_entry list" where
  "written this w out =
     drop (length (auditLog (database w))) (auditLog (database (finalWorld out)))"

subsection \<open>Sample data\<close>

definition env0 :: env where
  "env0 =
     \<lparr>DBModels = (\<lambda>name. name \<in> set
        [''DeliverySettingsProfile'', ''DeliveryFeeByDistance'', ''DealerFee'']),
      sequelize_transaction = Inr \<lparr>txId = 1, status = Open\<rparr>,
      commit = (\<lambda>t. Inr (t\<lparr>status := Committed\<rparr>)),
      rollback = (\<lambda>t. Inr (t\<lparr>status := RolledBack\<rparr>))\<rparr>"

definition user13 :: dashboard_user where
  "user13 = \<lparr>userId = 13\<rparr>"

definition svc13 :: service where
  "svc13 = withUser (Some user13) init"

definition deliverySettings :: model where
  "deliverySettings =
     \<lparr>isSequelizeModel = True,
      modelTableName = Some ''DeliverySettingsProfile'',
      primaryKeyAttributes = Some [''id''],
      dataValues = [(''id'', JNum 41), (''deliveryRangeMiles'', JNum 100),
        (''offerDeliveryTradeIn'', JNum 1)],
      previousDataValues = [(''id'', JNum 41), (''deliveryRangeMiles'', JNum 50),
        (''offerDeliveryTradeIn'', JNum 0)],
      changedKeys = [''deliveryRangeMiles'', ''offerDeliveryTradeIn'']\<rparr>"


definition world0 :: world where
  "world0 =
     \<lparr>database =
        \<lparr>rows =
           [(''DeliverySettingsProfile'',
             [(''id'', JNum 41), (''deliveryRangeMiles'', JNum 50),
              (''offerDeliveryTradeIn'', JNum 0)]),
            (''DealerFee'', [(''dealerId'', JNum 7), (''feeId'', JNum 3), (''feeCents'', JNum 500)])],
         auditLog = []\<rparr>\<rparr>"

section \<open>Properties\<close>

subsection \<open>Every execution ends at its first statement\<close>

lemma verifyArguments_on_class: "verifyArguments ClassObject changeSet = Inl TypeError"
  by (simp add: verifyArguments_def privateUser_def)

lemma execute_raises:
  "execute e this w a cs mt = \<lparr>result = Inl TypeError, finalWorld = w, txn = transaction this\<rparr>"
  by (simp add: execute_def verifyArguments_on_class)


text \<open>
  The rest of the method would not get further: whatever the service, the action and the
  change set, it raises an error and leaves the store as it is.
\<close>

lemma createModel_raises: "isl (createModel e data uid)"
  by (simp add: createModel_def split: option.splits)

lemma destroyModel_raises: "destroyModel m uid = Inl TypeError"
  by (simp add: destroyModel_def verifyArguments_on_class)

lemma catchBlock_fails: "isl (result (catchBlock e w tx managed err))"
  by (simp add: catchBlock_def split: sum.splits)

lemma catchBlock_world: "finalWorld (catchBlock e w tx managed err) = w"
  by (simp add: catchBlock_def split: sum.splits)

lemma tryBlock_fails: "isl (result (tryBlock e w tx managed exe))"
  by (simp add: tryBlock_def Promise_all_def catchBlock_fails)

lemma tryBlock_world: "finalWorld (tryBlock e w tx managed exe) = w"
  by (simp add: tryBlock_def Promise_all_def catchBlock_world)

lemma afterVerify_fails: "isl (result (afterVerify e this w a cs mt))"
  by (simp add: afterVerify_def tryBlock_fails split: sum.splits option.splits)

lemma afterVerify_world: "finalWorld (afterVerify e this w a cs mt) = w"
  by (simp add: afterVerify_def tryBlock_world split: sum.splits option.splits)

lemma afterVerify_create_empty:
  "user this \<noteq> None \<Longrightarrow>
   result (afterVerify e (this\<lparr>transaction := Some tx\<rparr>) w AUDIT_ACTIONS_CREATE [] mt)
     = Inl TypeError"
  by (auto simp: afterVerify_def actionIsPresentAndValid_def AUDIT_ACTIONS_def
      AUDIT_ACTIONS_CREATE_def AUDIT_ACTIONS_UPDATE_def executables_def first_def createModel_def)

subsection \<open>The setters\<close>

text \<open>
  C10. \<^verbatim>\<open>withUser\<close> sets the bound user and leaves the bound transaction as it was,
  \<^verbatim>\<open>withTransaction\<close> sets the bound transaction and leaves the bound user as it was, and
  the two calls chained in either order give the same service.
\<close>

theorem withUser_withTransaction_frame:
  "transaction (withUser u this) = transaction this \<and>
   user (withUser u this) = u \<and>
   user (withTransaction t this) = user this \<and>
   transaction (withTransaction t this) = t \<and>
   withUser u (withTransaction t this) = withTransaction t (withUser u this)"
  by (simp add: withUser_def withTransaction_def)

subsection \<open>CREATE and DELETE with no member\<close>

text \<open>
  C8. CREATE with an empty change set and a user bound raises TypeError, not the
  change-set error, and writes nothing. As the file stands the error comes from the first
  statement of \<^verbatim>\<open>execute\<close> (line 212). The size test would not catch the case either: it is
  \<^verbatim>\<open>changeSet.length > 1\<close> (line 218), and \<^verbatim>\<open>createModel(changeSet[0])\<close> destructures
  \<^verbatim>\<open>undefined\<close> (line 101), see \<open>afterVerify_create_empty\<close>.
\<close>

theorem create_empty_changeSet:
  "user svc13 \<noteq> None \<and> length ([] :: model list) \<noteq> 1 \<and>
   result (execute env0 svc13 world0 AUDIT_ACTIONS_CREATE [] True) = Inl TypeError \<and>
   written svc13 world0 (execute env0 svc13 world0 AUDIT_ACTIONS_CREATE [] True) = []"
  by (simp add: execute_raises written_def svc13_def withUser_def init_def)

subsection \<open>The exported delete\<close>

text \<open>
  C1. Deleting the delivery settings record 41 through the exported \<^verbatim>\<open>delete\<close> raises
  TypeError and leaves the store as it was: the row of the record is still there and no
  audit row is written. The same holds for \<^verbatim>\<open>execute\<close> with the action DELETE on a service
  with user 13 bound. Nothing performs the DELETE action. (The call in \<^verbatim>\<open>delete\<close> names the
  action CREATE, line 256; it does not get as far as using it.)
\<close>

theorem delete_raises_TypeError:
  "result (delete env0 world0 deliverySettings True) = Inl TypeError \<and>
   finalWorld (delete env0 world0 deliverySettings True) = world0 \<and>
   user svc13 = Some user13 \<and>
   result (execute env0 svc13 world0 AUDIT_ACTIONS_DELETE [deliverySettings] True)
     = Inl TypeError \<and>
   written svc13 world0 (execute env0 svc13 world0 AUDIT_ACTIONS_DELETE [deliverySettings] True)
     = [] \<and>
   rows (database (finalWorld
     (execute env0 svc13 world0 AUDIT_ACTIONS_DELETE [deliverySettings] True)))
     = rows (database world0)"
  by (simp add: delete_def AuditLogService_execute_def execute_raises written_def
      svc13_def withUser_def init_def)

subsection \<open>The checks\<close>

text \<open>
  C4. With user 13 bound and the action PURGE, which is none of the three, \<^verbatim>\<open>execute\<close>
  raises TypeError, not the invalid-action error; with no user bound it raises TypeError,
  not the misconfiguration error. Past the first statement the action test would end the
  same way: its \<^verbatim>\<open>throw\<close> (line 215) has no \<^verbatim>\<open>new\<close>.
\<close>

theorem invalid_action_raises_TypeError:
  "user svc13 = Some user13 \<and>
   ''PURGE'' \<notin> set [''CREATE'', ''UPDATE'', ''DELETE''] \<and>
   result (execute env0 svc13 world0 ''PURGE'' [deliverySettings] True) = Inl TypeError \<and>
   user init = None \<and>
   result (execute env0 init world0 ''PURGE'' [deliverySettings] True) = Inl TypeError \<and>
   result (afterVerify env0 svc13 world0 ''PURGE'' [deliverySettings] True) = Inl TypeError"
  by (simp add: execute_raises svc13_def withUser_def init_def afterVerify_def
      actionIsPresentAndValid_def AUDIT_ACTIONS_def withoutNew_def)

subsection \<open>UPDATE\<close>

lemma mapE_first_fails: "f x = Inl err \<Longrightarrow> mapE f (x # xs) = Inl err"
  by simp

lemma createAudit_dirty: "changedKeys m \<noteq> [] \<Longrightarrow> createAudit u uid m = Inl ReferenceError"
  by (cases "changedKeys m") (simp_all add: createAudit_def changed_def updateAuditRow_def)

lemma reduceE_dirty:
  "ms \<noteq> [] \<Longrightarrow> \<forall>m \<in> set ms. changedKeys m \<noteq> [] \<Longrightarrow>
   reduceE (modelUpdateReducer u uid) acc ms = Inl ReferenceError"
  by (cases ms) (simp_all add: modelUpdateReducer_def createAudit_dirty)

text \<open>
  Called by hand, the function of \<^verbatim>\<open>updateChangeSet\<close> raises ReferenceError as soon as one
  member has a changed field, and gives no pending write otherwise.
\<close>

lemma invokeUpdateChangeSet_dirty:
  assumes "\<exists>m \<in> set cs. changedKeys m \<noteq> []"
  shows "invokeUpdateChangeSet cs uid u promises = Inl ReferenceError"
proof -
  let ?ms = "filter (\<lambda>m. changed m \<noteq> None) cs"
  from assms have "?ms \<noteq> []" by (auto simp: changed_def filter_empty_conv)
  moreover have "\<forall>m \<in> set ?ms. changedKeys m \<noteq> []"
    by (auto simp: changed_def split: if_splits)
  ultimately have "reduceE (modelUpdateReducer u uid) [] ?ms = Inl ReferenceError"
    by (rule reduceE_dirty)
  then show ?thesis by (simp add: invokeUpdateChangeSet_def del: not_None_eq)
qed

lemma invokeUpdateChangeSet_clean:
  assumes "\<forall>m \<in> set cs. changedKeys m = []"
  shows "invokeUpdateChangeSet cs uid u promises = Inr (promises @ [Nested []])"
proof -
  from assms have "filter (\<lambda>m. changed m \<noteq> None) cs = []"
    by (auto simp: changed_def filter_empty_conv)
  then show ?thesis by (simp add: invokeUpdateChangeSet_def del: not_None_eq)
qed

text \<open>
  C5. The delivery settings record has two changed fields, so an UPDATE of it should give
  two audit rows. The exported \<^verbatim>\<open>update\<close> raises TypeError and leaves the store as it was;
  \<^verbatim>\<open>execute\<close> with the action UPDATE on a service with user 13 bound raises TypeError and
  writes no row; and the function \<^verbatim>\<open>updateChangeSet\<close> returns, called by hand, raises
  ReferenceError and hands over no pending write.
\<close>

theorem update_emits_nothing:
  "sum_list (map (\<lambda>m. length (changedKeys m)) [deliverySettings]) = 2 \<and>
   result (update env0 world0 [deliverySettings] True) = Inl TypeError \<and>
   finalWorld (update env0 world0 [deliverySettings] True) = world0 \<and>
   user svc13 = Some user13 \<and>
   result (execute env0 svc13 world0 AUDIT_ACTIONS_UPDATE [deliverySettings] True)
     = Inl TypeError \<and>
   written svc13 world0 (execute env0 svc13 world0 AUDIT_ACTIONS_UPDATE [deliverySettings] True)
     = [] \<and>
   updateChangeSet [deliverySettings] 13 = UpdateClosure [deliverySettings] 13 \<and>
   invokeUpdateChangeSet [deliverySettings] 13 ''u'' [] = Inl ReferenceError"
proof -
  have "\<exists>m \<in> set [deliverySettings]. changedKeys m \<noteq> []"
    by (simp add: deliverySettings_def)
  then have "invokeUpdateChangeSet [deliverySettings] 13 ''u'' [] = Inl ReferenceError"
    by (rule invokeUpdateChangeSet_dirty)
  then show ?thesis
    by (simp add: update_def AuditLogService_execute_def execute_raises written_def
        updateChangeSet_def svc13_def withUser_def init_def deliverySettings_def)
qed

subsection \<open>Composite primary keys\<close>


lemma getPrimaryKeyForModel_composite:
  "getPrimaryKeyForModel (m\<lparr>primaryKeyAttributes := Some [a, b]\<rparr>)
     = joinElement (getProp (dataValues m) a) @ '','' @ joinElement (getProp (dataValues m) b)"
  by (simp add: getPrimaryKeyForModel_def)



subsection \<open>Labels\<close>


end
